theory Spec2Isabelle
  imports Complex_Main "HOL-Library.Multiset"
begin

section \<open>Numbers\<close>

text \<open>
  The component computes on JavaScript numbers, that is, in IEEE binary64. The brackets
  arrive as JSON and the income passes the form's validation, so every input is a finite
  number. Finite numbers are rationals, and \<open>calculateTaxes\<close> is modelled twice:
  \<^item> with exact arithmetic (\<open>calculateTaxes\<close>), for the properties that rounding does
    not decide: which brackets are emitted and in which order, the clamp, monotonicity,
    the store;
  \<^item> with the result of every arithmetic operation rounded to binary64
    (\<open>calculateTaxes64\<close>), for the property that rounding decides: the exact sum of the
    emitted amounts.
  Two non-finite values can still arise inside \<open>calculateTaxes\<close> and are kept:
  \<^item> the local \<open>max\<close> is \<open>Infinity\<close> when the bracket has no \<open>max\<close>;
  \<^item> \<open>totalTaxPaid / income\<close> is not finite when \<open>income\<close> is zero.
\<close>

type_synonym number = rat

datatype bound = Finite number | Infinity

datatype jsnum = Num number | PosInfinity | NegInfinity | NaN

text \<open>\<open>max - min\<close> with a finite \<open>min\<close>: \<open>Infinity - min\<close> is \<open>Infinity\<close>.\<close>

fun bound_minus :: "bound \<Rightarrow> number \<Rightarrow> bound" where
  "bound_minus (Finite m) n = Finite (m - n)"
| "bound_minus Infinity n = Infinity"

text \<open>\<open>Math.min(a, b)\<close> with a finite \<open>a\<close>: \<open>Math.min(a, Infinity)\<close> is \<open>a\<close>.\<close>

fun Math_min :: "number \<Rightarrow> bound \<Rightarrow> number" where
  "Math_min a (Finite b) = min a b"
| "Math_min a Infinity = a"

definition Math_max :: "number \<Rightarrow> number \<Rightarrow> number" where
  "Math_max a b = max a b"

text \<open>
  \<open>a / b\<close> on finite numbers: a zero divisor gives \<open>NaN\<close> for \<open>0 / 0\<close> and an
  infinity of the sign of \<open>a\<close> otherwise (the sign of a zero is not modelled).
\<close>

definition js_div :: "number \<Rightarrow> number \<Rightarrow> jsnum" where
  "js_div a b =
     (if b = 0 then (if a = 0 then NaN else if 0 < a then PosInfinity else NegInfinity)
      else Num (a / b))"

text \<open>\<open>x * c\<close> for a finite, positive constant \<open>c\<close>.\<close>

fun js_times_pos :: "jsnum \<Rightarrow> number \<Rightarrow> jsnum" where
  "js_times_pos (Num a) c = Num (a * c)"
| "js_times_pos PosInfinity c = PosInfinity"
| "js_times_pos NegInfinity c = NegInfinity"
| "js_times_pos NaN c = NaN"










section \<open>Data model\<close>

text \<open>
  \<^verbatim>\<open>interface TaxBracket { min: number; max?: number; rate: number; }\<close>
  \<^verbatim>\<open>interface TaxCalculation { bracket: TaxBracket; taxableAmount: number; taxPaid: number; }\<close>
  The fields \<open>min\<close> and \<open>max\<close> carry a suffix, since HOL has constants of these names.
\<close>

record TaxBracket =
  min_b :: number
  max_b :: "number option"
  rate :: number

record TaxCalculation =
  bracket :: TaxBracket
  taxableAmount :: number
  taxPaid :: number

text \<open>
  Arrays are objects: a variable of type \<open>TaxBracket[]\<close> holds a reference, and
  \<open>Array.prototype.sort\<close> sorts the array it is called on. The store maps references
  to array contents; \<open>next_ref\<close> is the first reference not yet allocated. The two
  React state cells that \<open>calculateTaxes\<close> sets (\<open>useState<number>(0)\<close>) are part of
  the state.
\<close>

type_synonym ref = nat

record state =
  heap :: "ref \<Rightarrow> TaxBracket list"
  next_ref :: ref
  totalTax :: number
  effectiveRate :: jsnum

section \<open>calculateTaxes\<close>

text \<open>\<open>[...brackets]\<close>: a fresh array with the elements of \<open>brackets\<close>.\<close>

definition spread :: "ref \<Rightarrow> state \<Rightarrow> ref \<times> state" where
  "spread r s =
     (let r' = next_ref s
      in (r', s\<lparr>heap := (heap s)(r' := heap s r), next_ref := Suc r'\<rparr>))"

text \<open>
  \<open>arr.sort((a, b) => a.min - b.min)\<close>: sorts \<open>arr\<close> in place, ascending by \<open>min\<close>,
  and returns the same reference. The sort of ECMAScript 2019 is stable, as
  \<open>sort_key\<close> is.
\<close>

definition sort_by_min :: "ref \<Rightarrow> state \<Rightarrow> ref \<times> state" where
  "sort_by_min r s = (r, s\<lparr>heap := (heap s)(r := sort_key min_b (heap s r))\<rparr>)"

text \<open>
  \<^verbatim>\<open>const max = bracket.max ?? Infinity;\<close>
  \<^verbatim>\<open>const taxableInBand = Math.max(0, Math.min(income - min, max - min));\<close>
\<close>

definition upperEdge :: "TaxBracket \<Rightarrow> bound" where
  "upperEdge b = (case max_b b of None \<Rightarrow> Infinity | Some m \<Rightarrow> Finite m)"

definition taxableInBand :: "number \<Rightarrow> TaxBracket \<Rightarrow> number" where
  "taxableInBand income b =
     (let mn = min_b b; mx = upperEdge b
      in Math_max 0 (Math_min (income - mn) (bound_minus mx mn)))"

text \<open>
  The callback of \<open>sortedBrackets.forEach\<close>, on the two variables it updates: the
  array \<open>calculations\<close> (\<open>push\<close> appends) and \<open>totalTaxPaid\<close>.
\<close>

definition forEach_body ::
  "number \<Rightarrow> TaxCalculation list \<times> number \<Rightarrow> TaxBracket \<Rightarrow> TaxCalculation list \<times> number" where
  "forEach_body income acc b =
     (let (calculations, totalTaxPaid) = acc;
          t = taxableInBand income b
      in if 0 < t
         then (let paid = t * rate b
               in (calculations @ [\<lparr>bracket = b, taxableAmount = t, taxPaid = paid\<rparr>],
                   totalTaxPaid + paid))
         else (calculations, totalTaxPaid))"

text \<open>
  \<open>calculateTaxes(income, brackets)\<close>: returns the array \<open>calculations\<close> and sets the
  state cells \<open>totalTax\<close> and \<open>effectiveRate\<close>. The logger calls only write to the
  console and are left out.
\<close>

definition calculateTaxes :: "number \<Rightarrow> ref \<Rightarrow> state \<Rightarrow> TaxCalculation list \<times> state" where
  "calculateTaxes income brackets s =
     (let (copy, s1) = spread brackets s;
          (sortedBrackets, s2) = sort_by_min copy s1;
          (calculations, totalTaxPaid) =
             foldl (forEach_body income) ([], 0) (heap s2 sortedBrackets);
          effectiveRateValue = js_times_pos (js_div totalTaxPaid income) 100;
          s3 = s2\<lparr>totalTax := totalTaxPaid\<rparr>;
          s4 = s3\<lparr>effectiveRate := effectiveRateValue\<rparr>
      in (calculations, s4))"




text \<open>
  The state of the component when \<open>handleSubmit\<close> calls \<open>calculateTaxes\<close> for the
  first time: the fetched brackets are the only array, at reference 0, and both state
  cells hold their initial 0.
\<close>

definition fetched :: "TaxBracket list \<Rightarrow> state" where
  "fetched bs = \<lparr>heap = (\<lambda>_. [])(0 := bs), next_ref = 1, totalTax = 0, effectiveRate = Num 0\<rparr>"

text \<open>
  What a caller observes of one call: the returned allocations and the two state cells
  the call has set.
\<close>

definition result :: "number \<Rightarrow> ref \<Rightarrow> state \<Rightarrow> TaxCalculation list \<times> number \<times> jsnum" where
  "result income r s =
     (let (calculations, s') = calculateTaxes income r s
      in (calculations, totalTax s', effectiveRate s'))"

section \<open>Bracket sets\<close>

text \<open>The brackets of the component's test suite (\<open>mockTaxBrackets\<close>), and variations.\<close>

definition mockTaxBrackets :: "TaxBracket list" where
  "mockTaxBrackets =
     [\<lparr>min_b = 0, max_b = Some 50000, rate = 15 / 100\<rparr>,
      \<lparr>min_b = 50000, max_b = Some 100000, rate = 25 / 100\<rparr>,
      \<lparr>min_b = 100000, max_b = None, rate = 35 / 100\<rparr>]"

definition shuffled :: "TaxBracket list" where
  "shuffled =
     [\<lparr>min_b = 100000, max_b = None, rate = 35 / 100\<rparr>,
      \<lparr>min_b = 0, max_b = Some 50000, rate = 15 / 100\<rparr>,
      \<lparr>min_b = 50000, max_b = Some 100000, rate = 25 / 100\<rparr>]"


definition degenerate :: "TaxBracket list" where
  "degenerate =
     [\<lparr>min_b = 50000, max_b = Some 40000, rate = 25 / 100\<rparr>,
      \<lparr>min_b = 0, max_b = Some 50000, rate = 15 / 100\<rparr>]"

definition overlapping :: "TaxBracket list" where
  "overlapping =
     [\<lparr>min_b = 0, max_b = None, rate = 1\<rparr>, \<lparr>min_b = 50, max_b = None, rate = 1\<rparr>]"

definition tied :: "TaxBracket list" where
  "tied =
     [\<lparr>min_b = 0, max_b = Some 10, rate = 1 / 10\<rparr>,
      \<lparr>min_b = 0, max_b = Some 20, rate = 2 / 10\<rparr>]"








text \<open>The allocation that the loop pushes for a bracket with a positive amount.\<close>

definition allocation :: "number \<Rightarrow> TaxBracket \<Rightarrow> TaxCalculation" where
  "allocation income b =
     \<lparr>bracket = b, taxableAmount = taxableInBand income b,
      taxPaid = taxableInBand income b * rate b\<rparr>"

section \<open>The loop in closed form\<close>

lemma taxableInBand_nonneg: "0 \<le> taxableInBand income b"
  by (simp add: taxableInBand_def Math_max_def Let_def)

lemma forEach_body_step:
  "forEach_body income (cs, t) b =
     (cs @ (if 0 < taxableInBand income b then [allocation income b] else []),
      t + taxableInBand income b * rate b)"
proof (cases "0 < taxableInBand income b")
  case True
  then show ?thesis by (simp add: forEach_body_def allocation_def Let_def)
next
  case False
  with taxableInBand_nonneg [of income b] have "taxableInBand income b = 0" by simp
  then show ?thesis by (simp add: forEach_body_def Let_def)
qed

lemma forEach_fst:
  "fst (foldl (forEach_body income) (cs, t) bs) =
     cs @ map (allocation income) (filter (\<lambda>b. 0 < taxableInBand income b) bs)"
  by (induction bs arbitrary: cs t) (simp_all add: forEach_body_step)

lemma forEach_snd:
  "snd (foldl (forEach_body income) (cs, t) bs) =
     t + sum_list (map (\<lambda>b. taxableInBand income b * rate b) bs)"
  by (induction bs arbitrary: cs t) (simp_all add: forEach_body_step add.assoc)

lemma calculateTaxes_fst:
  "fst (calculateTaxes income r s) =
     map (allocation income)
       (filter (\<lambda>b. 0 < taxableInBand income b) (sort_key min_b (heap s r)))"
  by (simp add: calculateTaxes_def spread_def sort_by_min_def Let_def split_beta forEach_fst)

lemma calculateTaxes_totalTax:
  "totalTax (snd (calculateTaxes income r s)) =
     sum_list (map (\<lambda>b. taxableInBand income b * rate b) (sort_key min_b (heap s r)))"
  by (simp add: calculateTaxes_def spread_def sort_by_min_def Let_def split_beta forEach_snd)

lemma calculateTaxes_effectiveRate:
  "effectiveRate (snd (calculateTaxes income r s)) =
     js_times_pos (js_div (totalTax (snd (calculateTaxes income r s))) income) 100"
  by (simp add: calculateTaxes_def spread_def sort_by_min_def Let_def split_beta)

section \<open>The clamp formula\<close>

lemma taxableInBand_Some:
  "max_b b = Some m \<Longrightarrow> taxableInBand income b = max 0 (min (income - min_b b) (m - min_b b))"
  by (simp add: taxableInBand_def upperEdge_def Math_max_def Let_def)

lemma taxableInBand_None:
  "max_b b = None \<Longrightarrow> taxableInBand income b = max 0 (income - min_b b)"
  by (simp add: taxableInBand_def upperEdge_def Math_max_def Let_def)


lemma taxableInBand_mono: "i1 \<le> i2 \<Longrightarrow> taxableInBand i1 b \<le> taxableInBand i2 b"
  by (cases "max_b b") (auto simp add: taxableInBand_Some taxableInBand_None min_def max_def)

lemma taxableInBand_above: "income \<le> min_b b \<Longrightarrow> taxableInBand income b = 0"
  by (cases "max_b b") (auto simp add: taxableInBand_Some taxableInBand_None min_def max_def)

lemma taxableInBand_degenerate: "max_b b = Some m \<Longrightarrow> m \<le> min_b b \<Longrightarrow> taxableInBand income b = 0"
  by (auto simp add: taxableInBand_Some min_def max_def)

lemma taxableInBand_width:
  "max_b b = Some m \<Longrightarrow> 0 < taxableInBand income b \<Longrightarrow> taxableInBand income b \<le> m - min_b b"
  by (auto simp add: taxableInBand_Some min_def max_def split: if_splits)

section \<open>Emitted allocations\<close>

lemma map_bracket_calculateTaxes:
  "map bracket (fst (calculateTaxes income r s)) =
     filter (\<lambda>b. 0 < taxableInBand income b) (sort_key min_b (heap s r))"
  by (simp add: calculateTaxes_fst comp_def allocation_def)

lemma emitted_iff:
  "b \<in> bracket ` set (fst (calculateTaxes income r s)) \<longleftrightarrow>
     b \<in> set (heap s r) \<and> 0 < taxableInBand income b"
proof -
  have "bracket ` set (fst (calculateTaxes income r s)) =
        set (map bracket (fst (calculateTaxes income r s)))" by simp
  also have "\<dots> = {b \<in> set (heap s r). 0 < taxableInBand income b}"
    by (simp only: map_bracket_calculateTaxes set_filter set_sort)
  finally show ?thesis by simp
qed

lemma emitted_fields:
  "c \<in> set (fst (calculateTaxes income r s)) \<Longrightarrow>
     c = allocation income (bracket c) \<and> 0 < taxableInBand income (bracket c) \<and>
     bracket c \<in> set (heap s r)"
  by (auto simp add: calculateTaxes_fst allocation_def)

lemma result_eq:
  "result income r s =
     (map (allocation income)
        (filter (\<lambda>b. 0 < taxableInBand income b) (sort_key min_b (heap s r))),
      sum_list (map (\<lambda>b. taxableInBand income b * rate b) (sort_key min_b (heap s r))),
      js_times_pos
        (js_div (sum_list (map (\<lambda>b. taxableInBand income b * rate b)
                   (sort_key min_b (heap s r)))) income) 100)"
proof -
  obtain cs s' where c: "calculateTaxes income r s = (cs, s')" by (cases "calculateTaxes income r s")
  from c have "fst (calculateTaxes income r s) = cs" and "snd (calculateTaxes income r s) = s'"
    by simp_all
  with calculateTaxes_fst [of income r s] calculateTaxes_totalTax [of income r s]
    calculateTaxes_effectiveRate [of income r s] c
  show ?thesis by (simp add: result_def)
qed


lemma totalTax_nonneg:
  assumes "\<forall>b \<in> set (heap s r). 0 \<le> rate b"
  shows "0 \<le> totalTax (snd (calculateTaxes income r s))"
proof -
  let ?S = "sort_key min_b (heap s r)"
  have "0 \<le> taxableInBand income b * rate b" if "b \<in> set ?S" for b
    using that assms taxableInBand_nonneg [of income b] by simp
  then have "0 \<le> sum_list (map (\<lambda>b. taxableInBand income b * rate b) ?S)"
    by (intro sum_list_nonneg) auto
  then show ?thesis by (simp add: calculateTaxes_totalTax)
qed

section \<open>Contiguous bands\<close>










section \<open>Exact and rounded amounts\<close>














section \<open>The boundary scenario\<close>

text \<open>
  C1, as amended. For an income of 75,000 and the three brackets
  \<open>{0, 50000, 0.15}\<close>, \<open>{50000, 100000, 0.25}\<close>, \<open>{100000, -, 0.35}\<close>, the call
  returns exactly two allocations, 50000 taxed 7500 in the first bracket and 25000 taxed
  6250 in the second, and sets \<open>totalTax\<close> to 13750. The effective rate it sets is the
  percentage \<open>13750 / 75000 * 100\<close> (about 18.33), not the ratio 0.18333.
\<close>

theorem boundary_scenario_75000:
  "heap s r = mockTaxBrackets \<Longrightarrow>
     fst (calculateTaxes 75000 r s) =
       [\<lparr>bracket = \<lparr>min_b = 0, max_b = Some 50000, rate = 15 / 100\<rparr>,
         taxableAmount = 50000, taxPaid = 7500\<rparr>,
        \<lparr>bracket = \<lparr>min_b = 50000, max_b = Some 100000, rate = 25 / 100\<rparr>,
         taxableAmount = 25000, taxPaid = 6250\<rparr>] \<and>
     totalTax (snd (calculateTaxes 75000 r s)) = 13750 \<and>
     effectiveRate (snd (calculateTaxes 75000 r s)) = Num (13750 / 75000 * 100)"
  by (simp add: calculateTaxes_fst calculateTaxes_totalTax calculateTaxes_effectiveRate
      mockTaxBrackets_def allocation_def taxableInBand_def upperEdge_def Math_max_def
      js_div_def Let_def)

theorem boundary_scenario_75000_witness:
  "heap (fetched mockTaxBrackets) 0 = mockTaxBrackets \<and>
   map taxableAmount (fst (calculateTaxes 75000 0 (fetched mockTaxBrackets))) = [50000, 25000] \<and>
   map taxPaid (fst (calculateTaxes 75000 0 (fetched mockTaxBrackets))) = [7500, 6250] \<and>
   totalTax (snd (calculateTaxes 75000 0 (fetched mockTaxBrackets))) = 13750 \<and>
   effectiveRate (snd (calculateTaxes 75000 0 (fetched mockTaxBrackets))) = Num (55 / 3)"
  using boundary_scenario_75000 [of "fetched mockTaxBrackets" 0] by (simp add: fetched_def)

text \<open>
  The claim as first stated gives the effective rate as the ratio \<open>13750 / 75000\<close>; the
  call sets \<open>55 / 3\<close>, a hundred times that.
\<close>

theorem boundary_scenario_ratio_counterexample:
  "effectiveRate (snd (calculateTaxes 75000 0 (fetched mockTaxBrackets))) = Num (55 / 3) \<and>
   effectiveRate (snd (calculateTaxes 75000 0 (fetched mockTaxBrackets))) \<noteq> Num (13750 / 75000)"
  by (simp add: calculateTaxes_def spread_def sort_by_min_def forEach_body_def fetched_def
      mockTaxBrackets_def taxableInBand_def upperEdge_def Math_max_def js_div_def Let_def)

section \<open>The effective rate\<close>

text \<open>
  C2, as amended. For every positive income and every bracket set, the effective rate
  that the call sets is \<open>totalTax / income * 100\<close>: a percentage, the multiplication by
  100 being done inside the calculation. It is at least 0 when no rate is negative; no
  upper limit holds for every bracket set.
\<close>

theorem effectiveRate_is_percentage:
  assumes "heap s r = bs" and "0 < income"
  shows "effectiveRate (snd (calculateTaxes income r s)) =
           Num (totalTax (snd (calculateTaxes income r s)) / income * 100) \<and>
         ((\<forall>b \<in> set bs. 0 \<le> rate b) \<longrightarrow>
            0 \<le> totalTax (snd (calculateTaxes income r s)) / income * 100)"
proof (intro conjI impI)
  let ?t = "totalTax (snd (calculateTaxes income r s))"
  show "effectiveRate (snd (calculateTaxes income r s)) = Num (?t / income * 100)"
    using assms(2) by (simp add: calculateTaxes_effectiveRate js_div_def)
  assume "\<forall>b \<in> set bs. 0 \<le> rate b"
  then have "\<forall>b \<in> set (heap s r). 0 \<le> rate b" using assms(1) by simp
  then have "0 \<le> ?t" by (rule totalTax_nonneg)
  then show "0 \<le> ?t / income * 100" using assms(2) by simp
qed

theorem effectiveRate_is_percentage_witness:
  "heap (fetched mockTaxBrackets) 0 = mockTaxBrackets \<and> (0::rat) < 75000 \<and>
   map rate mockTaxBrackets = [15 / 100, 25 / 100, 35 / 100] \<and>
   totalTax (snd (calculateTaxes 75000 0 (fetched mockTaxBrackets))) = 13750 \<and>
   effectiveRate (snd (calculateTaxes 75000 0 (fetched mockTaxBrackets))) =
     Num (totalTax (snd (calculateTaxes 75000 0 (fetched mockTaxBrackets))) / 75000 * 100) \<and>
   0 \<le> totalTax (snd (calculateTaxes 75000 0 (fetched mockTaxBrackets))) / 75000 * 100"
proof -
  have h: "heap (fetched mockTaxBrackets) 0 = mockTaxBrackets" by (simp add: fetched_def)
  have rates: "\<forall>b \<in> set mockTaxBrackets. 0 \<le> rate b"
    by (simp add: mockTaxBrackets_def)
  have m: "map rate mockTaxBrackets = [15 / 100, 25 / 100, 35 / 100]"
    by (simp add: mockTaxBrackets_def)
  have t: "totalTax (snd (calculateTaxes 75000 0 (fetched mockTaxBrackets))) = 13750"
    by (simp add: calculateTaxes_def spread_def sort_by_min_def forEach_body_def fetched_def
        mockTaxBrackets_def taxableInBand_def upperEdge_def Math_max_def Let_def)
  from effectiveRate_is_percentage [OF h, of 75000] h rates m t
  show ?thesis by simp
qed

text \<open>
  The claim as first stated fails twice at an income of 100 with two overlapping
  open-ended bands of rate 1: the call sets the effective rate 150, which is not
  \<open>totalTax / income\<close>, and \<open>totalTax / income\<close> itself is 1.5, above 1.
\<close>

theorem effectiveRate_ratio_counterexample:
  "(0::rat) < 100 \<and> map rate overlapping = [1, 1] \<and>
   totalTax (snd (calculateTaxes 100 0 (fetched overlapping))) = 150 \<and>
   effectiveRate (snd (calculateTaxes 100 0 (fetched overlapping))) = Num 150 \<and>
   effectiveRate (snd (calculateTaxes 100 0 (fetched overlapping))) \<noteq>
     Num (totalTax (snd (calculateTaxes 100 0 (fetched overlapping))) / 100) \<and>
   \<not> totalTax (snd (calculateTaxes 100 0 (fetched overlapping))) / 100 \<le> 1"
  by (simp add: calculateTaxes_def spread_def sort_by_min_def forEach_body_def fetched_def
      overlapping_def taxableInBand_def upperEdge_def Math_max_def js_div_def Let_def)

section \<open>Conservation\<close>




section \<open>Monotonicity\<close>

text \<open>
  C4. For a fixed bracket set whose rates are all at least 0, the total tax that the
  call sets does not decrease when the income increases.
\<close>

theorem totalTax_monotone:
  assumes "heap s r = bs" and "heap s' r' = bs"
    and "\<forall>b \<in> set bs. 0 \<le> rate b" and "i1 \<le> i2"
  shows "totalTax (snd (calculateTaxes i1 r s)) \<le> totalTax (snd (calculateTaxes i2 r' s'))"
proof -
  have "taxableInBand i1 b * rate b \<le> taxableInBand i2 b * rate b"
    if "b \<in> set (sort_key min_b bs)" for b
  proof -
    from that assms(3) have "0 \<le> rate b" by simp
    with taxableInBand_mono [OF assms(4), of b] show ?thesis by (rule mult_right_mono)
  qed
  then have "sum_list (map (\<lambda>b. taxableInBand i1 b * rate b) (sort_key min_b bs)) \<le>
             sum_list (map (\<lambda>b. taxableInBand i2 b * rate b) (sort_key min_b bs))"
    by (rule sum_list_mono)
  with assms(1,2) show ?thesis by (simp add: calculateTaxes_totalTax)
qed

theorem totalTax_monotone_witness:
  "heap (fetched mockTaxBrackets) 0 = mockTaxBrackets \<and>
   map rate mockTaxBrackets = [15 / 100, 25 / 100, 35 / 100] \<and> (50000::rat) \<le> 75000 \<and>
   totalTax (snd (calculateTaxes 50000 0 (fetched mockTaxBrackets))) = 7500 \<and>
   totalTax (snd (calculateTaxes 75000 0 (fetched mockTaxBrackets))) = 13750 \<and>
   totalTax (snd (calculateTaxes 50000 0 (fetched mockTaxBrackets))) \<le>
   totalTax (snd (calculateTaxes 75000 0 (fetched mockTaxBrackets)))"
proof -
  have h: "heap (fetched mockTaxBrackets) 0 = mockTaxBrackets" by (simp add: fetched_def)
  have rates: "\<forall>b \<in> set mockTaxBrackets. 0 \<le> rate b" by (simp add: mockTaxBrackets_def)
  have m: "map rate mockTaxBrackets = [15 / 100, 25 / 100, 35 / 100]"
    by (simp add: mockTaxBrackets_def)
  have le: "(50000::rat) \<le> 75000" by simp
  have t1: "totalTax (snd (calculateTaxes 50000 0 (fetched mockTaxBrackets))) = 7500"
    by (simp add: calculateTaxes_def spread_def sort_by_min_def forEach_body_def fetched_def
        mockTaxBrackets_def taxableInBand_def upperEdge_def Math_max_def Let_def)
  have t2: "totalTax (snd (calculateTaxes 75000 0 (fetched mockTaxBrackets))) = 13750"
    by (simp add: calculateTaxes_def spread_def sort_by_min_def forEach_body_def fetched_def
        mockTaxBrackets_def taxableInBand_def upperEdge_def Math_max_def Let_def)
  from totalTax_monotone [OF h h rates le] h m t1 t2 show ?thesis by simp
qed

section \<open>Order of the input\<close>

text \<open>
  C5, as amended. For every income and every bracket list in which no two different
  brackets have the same \<open>min\<close>, the call on any permutation of the list gives the same
  allocations, total tax and effective rate as the call on the list itself.
\<close>

theorem permutation_same_result:
  assumes "heap s r = bs" and "heap s' r' = bs'"
    and "mset bs' = mset bs" and "inj_on min_b (set bs)"
  shows "result income r' s' = result income r s"
proof -
  have "sort_key min_b bs = sort_key min_b bs'"
  proof (rule sort_key_inj_key_eq)
    show "mset bs = mset (sort_key min_b bs')" using assms(3) by simp
    show "inj_on min_b (set bs)" by (rule assms(4))
    show "sorted (map min_b (sort_key min_b bs'))" by simp
  qed
  with assms(1,2) show ?thesis by (simp add: result_eq)
qed

theorem permutation_same_result_witness:
  "heap (fetched mockTaxBrackets) 0 = mockTaxBrackets \<and> heap (fetched shuffled) 0 = shuffled \<and>
   mset shuffled = mset mockTaxBrackets \<and> inj_on min_b (set mockTaxBrackets) \<and>
   result 75000 0 (fetched shuffled) = result 75000 0 (fetched mockTaxBrackets)"
proof -
  have h: "heap (fetched mockTaxBrackets) 0 = mockTaxBrackets" by (simp add: fetched_def)
  have h': "heap (fetched shuffled) 0 = shuffled" by (simp add: fetched_def)
  have m: "mset shuffled = mset mockTaxBrackets" by (simp add: shuffled_def mockTaxBrackets_def)
  have i: "inj_on min_b (set mockTaxBrackets)" by (simp add: mockTaxBrackets_def)
  from permutation_same_result [OF h h' m i] h h' m i show ?thesis by simp
qed

text \<open>
  The claim as first stated fails for two brackets of the same \<open>min\<close>: the sort is
  stable, so the two allocations come out in the order of the input.
\<close>

theorem tied_min_order_counterexample:
  "mset (rev tied) = mset tied \<and>
   map taxableAmount (fst (calculateTaxes 100 0 (fetched tied))) = [10, 20] \<and>
   map taxableAmount (fst (calculateTaxes 100 0 (fetched (rev tied)))) = [20, 10] \<and>
   result 100 0 (fetched (rev tied)) \<noteq> result 100 0 (fetched tied)"
  by (simp add: result_def calculateTaxes_def spread_def sort_by_min_def forEach_body_def
      fetched_def tied_def taxableInBand_def upperEdge_def Math_max_def Let_def)

section \<open>Omission of zero contributions\<close>

text \<open>
  C6. A bracket is emitted if and only if its clamped taxable amount is strictly
  positive: the brackets of the returned allocations are, in sorted order, exactly the
  brackets with a positive amount. A bracket whose \<open>min\<close> is above the income never
  appears, and no emitted allocation has a taxable amount of zero.
\<close>

theorem zero_contribution_omitted:
  "heap s r = bs \<Longrightarrow>
     map bracket (fst (calculateTaxes income r s)) =
       filter (\<lambda>b. 0 < taxableInBand income b) (sort_key min_b bs) \<and>
     (\<forall>b. b \<in> bracket ` set (fst (calculateTaxes income r s)) \<longleftrightarrow>
            b \<in> set bs \<and> 0 < taxableInBand income b) \<and>
     (\<forall>b. income < min_b b \<longrightarrow> b \<notin> bracket ` set (fst (calculateTaxes income r s))) \<and>
     (\<forall>c \<in> set (fst (calculateTaxes income r s)).
        taxableAmount c = taxableInBand income (bracket c) \<and> 0 < taxableAmount c)"
proof (intro conjI allI ballI impI)
  assume h: "heap s r = bs"
  show "map bracket (fst (calculateTaxes income r s)) =
          filter (\<lambda>b. 0 < taxableInBand income b) (sort_key min_b bs)"
    using h by (simp only: map_bracket_calculateTaxes)
  show "b \<in> bracket ` set (fst (calculateTaxes income r s)) \<longleftrightarrow>
          b \<in> set bs \<and> 0 < taxableInBand income b" for b
    using h by (simp only: emitted_iff)
  show "b \<notin> bracket ` set (fst (calculateTaxes income r s))" if "income < min_b b" for b
    using that taxableInBand_above [of income b] by (simp add: emitted_iff)
  show "taxableAmount c = taxableInBand income (bracket c)"
    if "c \<in> set (fst (calculateTaxes income r s))" for c
    using emitted_fields [OF that] by (metis TaxCalculation.select_convs(2) allocation_def)
  show "0 < taxableAmount c" if "c \<in> set (fst (calculateTaxes income r s))" for c
    using emitted_fields [OF that] by (metis TaxCalculation.select_convs(2) allocation_def)
qed

theorem zero_contribution_omitted_witness:
  "heap (fetched shuffled) 0 = shuffled \<and>
   map bracket (fst (calculateTaxes 50000 0 (fetched shuffled))) =
     [\<lparr>min_b = 0, max_b = Some 50000, rate = 15 / 100\<rparr>] \<and>
   \<lparr>min_b = 100000, max_b = None, rate = 35 / 100\<rparr>
     \<notin> bracket ` set (fst (calculateTaxes 50000 0 (fetched shuffled)))"
proof -
  have h: "heap (fetched shuffled) 0 = shuffled" by (simp add: fetched_def)
  from zero_contribution_omitted [OF h, of 50000] h show ?thesis
    by (simp add: shuffled_def taxableInBand_def upperEdge_def Math_max_def Let_def)
qed

section \<open>Degenerate input\<close>

text \<open>
  C7. The call has no failing path: for every income and every brackets array, empty,
  unsorted or with a band whose \<open>max\<close> is below its \<open>min\<close>, it returns allocations and
  sets the two state cells. An unsorted array gives the result of the sorted one, and a
  band whose \<open>max\<close> is below its \<open>min\<close> has a clamped amount of zero and is not
  emitted.
\<close>

theorem degenerate_input_tolerated:
  "heap s r = bs \<Longrightarrow>
     (\<forall>s' r'. heap s' r' = sort_key min_b bs \<longrightarrow> result income r s = result income r' s') \<and>
     (\<forall>b \<in> set bs. \<forall>m. max_b b = Some m \<and> m < min_b b \<longrightarrow>
        taxableInBand income b = 0 \<and> b \<notin> bracket ` set (fst (calculateTaxes income r s)))"
proof (intro conjI allI ballI impI)
  assume h: "heap s r = bs"
  show "result income r s = result income r' s'" if "heap s' r' = sort_key min_b bs" for s' r'
  proof -
    have "sort_key min_b (sort_key min_b bs) = sort_key min_b bs"
      by (rule sort_key_id_if_sorted) simp
    with h that show ?thesis by (simp add: result_eq)
  qed
  show "taxableInBand income b = 0" if "max_b b = Some m \<and> m < min_b b" for b m
    using that taxableInBand_degenerate [of b m income] by simp
  show "b \<notin> bracket ` set (fst (calculateTaxes income r s))"
    if "max_b b = Some m \<and> m < min_b b" for b m
    using that taxableInBand_degenerate [of b m income] by (simp add: emitted_iff)
qed

theorem degenerate_input_tolerated_witness:
  "heap (fetched degenerate) 0 = degenerate \<and>
   heap (fetched (sort_key min_b degenerate)) 0 = sort_key min_b degenerate \<and>
   result 75000 0 (fetched degenerate) = result 75000 0 (fetched (sort_key min_b degenerate)) \<and>
   (40000::rat) < 50000 \<and>
   taxableInBand 75000 \<lparr>min_b = 50000, max_b = Some 40000, rate = 25 / 100\<rparr> = 0 \<and>
   \<lparr>min_b = 50000, max_b = Some 40000, rate = 25 / 100\<rparr>
     \<notin> bracket ` set (fst (calculateTaxes 75000 0 (fetched degenerate)))"
proof -
  have h: "heap (fetched degenerate) 0 = degenerate" by (simp add: fetched_def)
  have h': "heap (fetched (sort_key min_b degenerate)) 0 = sort_key min_b degenerate"
    by (simp add: fetched_def)
  have b: "\<lparr>min_b = 50000, max_b = Some 40000, rate = 25 / 100\<rparr> \<in> set degenerate"
    by (simp add: degenerate_def)
  from degenerate_input_tolerated [OF h, of 75000] h' b
  have "result 75000 0 (fetched degenerate) = result 75000 0 (fetched (sort_key min_b degenerate))"
    and "taxableInBand 75000 \<lparr>min_b = 50000, max_b = Some 40000, rate = 25 / 100\<rparr> = 0"
    and "\<lparr>min_b = 50000, max_b = Some 40000, rate = 25 / 100\<rparr>
           \<notin> bracket ` set (fst (calculateTaxes 75000 0 (fetched degenerate)))"
    by auto
  with h h' show ?thesis by simp
qed

section \<open>Empty brackets\<close>

text \<open>
  C8. With an empty brackets array, for every income, the call returns an empty
  allocation sequence and sets the total tax to 0.
\<close>

theorem empty_brackets_result:
  "heap s r = [] \<Longrightarrow>
     fst (calculateTaxes income r s) = [] \<and> totalTax (snd (calculateTaxes income r s)) = 0"
  by (simp add: calculateTaxes_fst calculateTaxes_totalTax)

theorem empty_brackets_result_witness:
  "heap (fetched []) 0 = [] \<and>
   fst (calculateTaxes 75000 0 (fetched [])) = [] \<and>
   totalTax (snd (calculateTaxes 75000 0 (fetched []))) = 0"
  using empty_brackets_result [of "fetched []" 0 75000] by (simp add: fetched_def)

section \<open>The caller's array\<close>

text \<open>
  C9. The call does not change the brackets array it is given: it sorts a fresh copy.
  After the call, the array of the caller, as every array allocated before the call,
  holds the same elements in the same order as before, and the sorted elements are in
  the new array.
\<close>

theorem brackets_not_mutated:
  "r < next_ref s \<Longrightarrow>
     heap (snd (calculateTaxes income r s)) r = heap s r \<and>
     heap (snd (calculateTaxes income r s)) (next_ref s) = sort_key min_b (heap s r) \<and>
     (\<forall>a < next_ref s. heap (snd (calculateTaxes income r s)) a = heap s a)"
  by (simp add: calculateTaxes_def spread_def sort_by_min_def Let_def split_beta)

theorem brackets_not_mutated_witness:
  "(0::nat) < next_ref (fetched shuffled) \<and>
   heap (snd (calculateTaxes 75000 0 (fetched shuffled))) 0 = shuffled \<and>
   heap (snd (calculateTaxes 75000 0 (fetched shuffled))) 1 = mockTaxBrackets \<and>
   shuffled \<noteq> mockTaxBrackets"
  using brackets_not_mutated [of 0 "fetched shuffled" 75000]
  by (simp add: fetched_def shuffled_def mockTaxBrackets_def)

section \<open>Bounds of an allocation\<close>

text \<open>
  C10. Every allocation that the call emits has a taxable amount that is strictly
  positive and, when its bracket has a \<open>max\<close>, at most the width \<open>max - min\<close> of the
  band (a bracket without \<open>max\<close> sets no limit), and a tax paid of the taxable amount
  times the rate. A bracket whose \<open>min\<close> equals the income contributes zero and is not
  emitted.
\<close>

theorem allocation_within_band:
  "heap s r = bs \<Longrightarrow>
     (\<forall>c \<in> set (fst (calculateTaxes income r s)).
        0 < taxableAmount c \<and>
        (\<forall>m. max_b (bracket c) = Some m \<longrightarrow> taxableAmount c \<le> m - min_b (bracket c)) \<and>
        taxPaid c = taxableAmount c * rate (bracket c)) \<and>
     (\<forall>b \<in> set bs. min_b b = income \<longrightarrow>
        taxableInBand income b = 0 \<and> b \<notin> bracket ` set (fst (calculateTaxes income r s)))"
proof (intro conjI ballI impI allI)
  fix c assume c: "c \<in> set (fst (calculateTaxes income r s))"
  from emitted_fields [OF c] have eq: "c = allocation income (bracket c)"
    and pos: "0 < taxableInBand income (bracket c)" by simp_all
  from eq have ta: "taxableAmount c = taxableInBand income (bracket c)"
    by (metis TaxCalculation.select_convs(2) allocation_def)
  from eq have tp: "taxPaid c = taxableInBand income (bracket c) * rate (bracket c)"
    by (metis TaxCalculation.select_convs(3) allocation_def)
  show "0 < taxableAmount c" using ta pos by simp
  show "taxableAmount c \<le> m - min_b (bracket c)" if "max_b (bracket c) = Some m" for m
    using ta taxableInBand_width [OF that pos] by simp
  show "taxPaid c = taxableAmount c * rate (bracket c)" using ta tp by simp
next
  fix b :: TaxBracket
  assume "b \<in> set bs" and "min_b b = income"
  then have z: "taxableInBand income b = 0" by (simp add: taxableInBand_above)
  show "taxableInBand income b = 0" by (rule z)
  show "b \<notin> bracket ` set (fst (calculateTaxes income r s))" using z by (simp add: emitted_iff)
qed

text \<open>
  At an income of 100,000 the first two bands are filled up to their width of 50,000,
  although the income exceeds their \<open>min\<close> by 100,000 and by 50,000, and the third,
  whose \<open>min\<close> is the income, is not emitted.
\<close>

theorem allocation_within_band_witness:
  "heap (fetched mockTaxBrackets) 0 = mockTaxBrackets \<and>
   map bracket (fst (calculateTaxes 100000 0 (fetched mockTaxBrackets))) =
     [\<lparr>min_b = 0, max_b = Some 50000, rate = 15 / 100\<rparr>,
      \<lparr>min_b = 50000, max_b = Some 100000, rate = 25 / 100\<rparr>] \<and>
   map taxableAmount (fst (calculateTaxes 100000 0 (fetched mockTaxBrackets))) = [50000, 50000] \<and>
   map taxPaid (fst (calculateTaxes 100000 0 (fetched mockTaxBrackets))) = [7500, 12500] \<and>
   taxableInBand 100000 \<lparr>min_b = 100000, max_b = None, rate = 35 / 100\<rparr> = 0 \<and>
   \<lparr>min_b = 100000, max_b = None, rate = 35 / 100\<rparr>
     \<notin> bracket ` set (fst (calculateTaxes 100000 0 (fetched mockTaxBrackets)))"
proof -
  have h: "heap (fetched mockTaxBrackets) 0 = mockTaxBrackets" by (simp add: fetched_def)
  have a: "fst (calculateTaxes 100000 0 (fetched mockTaxBrackets)) =
             [\<lparr>bracket = \<lparr>min_b = 0, max_b = Some 50000, rate = 15 / 100\<rparr>,
               taxableAmount = 50000, taxPaid = 7500\<rparr>,
              \<lparr>bracket = \<lparr>min_b = 50000, max_b = Some 100000, rate = 25 / 100\<rparr>,
               taxableAmount = 50000, taxPaid = 12500\<rparr>]"
    by (simp add: calculateTaxes_def spread_def sort_by_min_def forEach_body_def fetched_def
        mockTaxBrackets_def taxableInBand_def upperEdge_def Math_max_def Let_def)
  from allocation_within_band [OF h, of 100000] h a show ?thesis
    by (simp add: mockTaxBrackets_def)
qed

end
